theory Spec2Isabelle
  imports Main "HOL-Library.Word"
begin

section \<open>The school directory: route handlers of /api/schools/[id] and the schema\<close>

text \<open>
  The development embeds \<^verbatim>\<open>src/app/api/schools/[id]/route.ts\<close> (the handlers
  \<^verbatim>\<open>PUT\<close>, \<^verbatim>\<open>GET\<close> and \<^verbatim>\<open>DELETE\<close>) and \<^verbatim>\<open>src/lib/database.ts\<close>
  (the schema and \<^verbatim>\<open>initializeDatabase\<close>).

  What lies outside the two files is modelled as follows.
  \<^item> \<^verbatim>\<open>verifyToken\<close> (\<^verbatim>\<open>@/lib/auth\<close>) is a parameter: a function from the token
    to the user id of its payload, \<open>None\<close> where it throws.
  \<^item> The relational store is a record of tables, each a list of rows. The column
    types are those of the \<^verbatim>\<open>CREATE TABLE\<close> statements of \<^verbatim>\<open>database.ts\<close>:
    \<^verbatim>\<open>SERIAL\<close> and \<^verbatim>\<open>INTEGER\<close> are 32-bit, \<^verbatim>\<open>BIGINT\<close> is 64-bit, both signed.
    A query parameter that does not fit the type of the column it is compared with or
    assigned to makes the query throw, which the handlers catch. Loss of the connection
    is not modelled: \<^verbatim>\<open>pool.connect()\<close> always answers.
  \<^item> JavaScript numbers are modelled as integers. \<^verbatim>\<open>parseInt\<close> follows ECMAScript
    on 8-bit characters; its result is exact here, and in JavaScript up to
    \<open>2 ^ 53 - 1\<close> in magnitude (beyond that JavaScript rounds to a double).
  \<^item> A form value is a string or absent (\<^verbatim>\<open>formData.get(..) as string\<close>); file
    uploads in text fields are outside the model.
\<close>

subsection \<open>parseInt and the e-mail pattern\<close>

definition is_ws :: "char \<Rightarrow> bool" where
  \<comment> \<open>tab, line feed, vertical tab, form feed, carriage return, space, no-break space\<close>
  "is_ws c = ((of_char c :: nat) \<in> {9, 10, 11, 12, 13, 32, 160})"

definition digit_of :: "nat \<Rightarrow> char \<Rightarrow> nat option" where
  \<comment> \<open>the value of a digit of radix \<open>R\<close>: 0-9, then a-z or A-Z\<close>
  "digit_of R c =
     (let n = (of_char c :: nat);
          d = (if 48 \<le> n \<and> n \<le> 57 then Some (n - 48)
               else if 97 \<le> n \<and> n \<le> 122 then Some (n - 87)
               else if 65 \<le> n \<and> n \<le> 90 then Some (n - 55)
               else None)
      in case d of None \<Rightarrow> None | Some v \<Rightarrow> if v < R then Some v else None)"

fun radix_digits :: "nat \<Rightarrow> string \<Rightarrow> nat list" where
  \<comment> \<open>the longest prefix of digits of radix \<open>R\<close>, as values\<close>
  "radix_digits R [] = []"
| "radix_digits R (c # cs) =
     (case digit_of R c of None \<Rightarrow> [] | Some v \<Rightarrow> v # radix_digits R cs)"

definition strip_sign :: "string \<Rightarrow> string" where
  "strip_sign S = (case S of [] \<Rightarrow> []
     | c # r \<Rightarrow> if c = CHR ''+'' \<or> c = CHR ''-'' then r else S)"

definition strip_prefix :: "string \<Rightarrow> nat \<times> string" where
  \<comment> \<open>no radix argument: 16 after a leading 0x or 0X, else 10\<close>
  "strip_prefix S = (case S of
       a # b # r \<Rightarrow>
         if a = CHR ''0'' \<and> (b = CHR ''x'' \<or> b = CHR ''X'') then (16, r) else (10, S)
     | _ \<Rightarrow> (10, S))"

definition parseInt :: "string \<Rightarrow> int option" where
  \<comment> \<open>\<open>None\<close> is NaN\<close>
  "parseInt s =
     (let S = dropWhile is_ws s;
          sign = (case S of [] \<Rightarrow> 1 | c # _ \<Rightarrow> if c = CHR ''-'' then - 1 else (1 :: int));
          (R, S2) = strip_prefix (strip_sign S);
          Z = radix_digits R S2
      in if Z = [] then None
         else Some (sign * int (foldl (\<lambda>a d. a * R + d) 0 Z)))"

definition plain :: "char \<Rightarrow> bool" where
  \<comment> \<open>the class \<^verbatim>\<open>[^\s@]\<close>\<close>
  "plain c = (\<not> is_ws c \<and> c \<noteq> CHR ''@'')"

definition emailRegex_test :: "string \<Rightarrow> bool" where
  \<comment> \<open>\<^verbatim>\<open>/^[^\s@]+@[^\s@]+\.[^\s@]+$/\<close>: a non-empty plain local part, one \<^verbatim>\<open>@\<close>, and a
      plain rest with a dot that is neither its first nor its last character\<close>
  "emailRegex_test s =
     (let a = takeWhile (\<lambda>c. c \<noteq> CHR ''@'') s;
          r = dropWhile (\<lambda>c. c \<noteq> CHR ''@'') s
      in a \<noteq> [] \<and> list_all plain a \<and>
         (case r of [] \<Rightarrow> False
          | _ # d \<Rightarrow> list_all plain d \<and>
              list_ex (\<lambda>i. d ! i = CHR ''.'') [1 ..< length d - 1]))"

subsection \<open>The tables of database.ts\<close>

type_synonym int4 = "32 word"
type_synonym int8 = "64 word"
type_synonym timestamp = nat

record app_user =
  user_id :: int4
  email :: string
  password_hash :: string
  is_verified :: bool
  user_created_at :: timestamp
  last_login :: "timestamp option"
  user_updated_at :: timestamp

record otp_verification =
  otp_id :: int4
  otp_user_id :: "int4 option"
  otp_hash :: string
  expires_at :: timestamp
  otp_created_at :: timestamp

record school =
  school_id :: int4
  name :: string
  address :: string
  city :: string
  state :: string
  contact :: int8
  image :: "string option"
  email_id :: string
  created_by :: "int4 option"
  created_at :: timestamp
  updated_at :: timestamp

record store =
  app_users :: "app_user list"
  otp_verifications :: "otp_verification list"
  schools :: "school list"

datatype db_error = OutOfRange

definition to_int4 :: "int \<Rightarrow> db_error + int4" where
  \<comment> \<open>binding a number to an \<^verbatim>\<open>INTEGER\<close> parameter\<close>
  "to_int4 n = (if - (2 ^ 31) \<le> n \<and> n < 2 ^ 31 then Inr (word_of_int n) else Inl OutOfRange)"

definition to_int8 :: "int \<Rightarrow> db_error + int8" where
  \<comment> \<open>binding a number to a \<^verbatim>\<open>BIGINT\<close> parameter\<close>
  "to_int8 n = (if - (2 ^ 63) \<le> n \<and> n < 2 ^ 63 then Inr (word_of_int n) else Inl OutOfRange)"

definition number_of :: "int4 option \<Rightarrow> int option" where
  \<comment> \<open>an \<^verbatim>\<open>INTEGER\<close> column as the driver hands it to JavaScript: a number or null\<close>
  "number_of v = map_option sint v"

subsection \<open>The statements the handlers send\<close>

definition select_owner :: "store \<Rightarrow> int \<Rightarrow> db_error + (int4 \<times> int4 option) list" where
  \<comment> \<open>\<^verbatim>\<open>SELECT id, created_by FROM schools WHERE id = $1\<close>\<close>
  "select_owner db schoolId =
     (case to_int4 schoolId of
        Inl e \<Rightarrow> Inl e
      | Inr i \<Rightarrow> Inr (map (\<lambda>s. (school_id s, created_by s))
                       (filter (\<lambda>s. school_id s = i) (schools db))))"

definition set_fields ::
  "timestamp \<Rightarrow> string \<Rightarrow> string \<Rightarrow> string \<Rightarrow> string \<Rightarrow> int8 \<Rightarrow> string \<Rightarrow> school \<Rightarrow> school" where
  \<comment> \<open>the \<^verbatim>\<open>SET\<close> list of the update; the trigger sets \<^verbatim>\<open>updated_at\<close> to the same time\<close>
  "set_fields t n a c st k e s =
     s\<lparr>name := n, address := a, city := c, state := st, contact := k, email_id := e,
       updated_at := t\<rparr>"

definition update_school ::
  "store \<Rightarrow> timestamp \<Rightarrow> string \<Rightarrow> string \<Rightarrow> string \<Rightarrow> string \<Rightarrow> int \<Rightarrow> string \<Rightarrow> int \<Rightarrow>
     db_error + (store \<times> school list)" where
  \<comment> \<open>\<^verbatim>\<open>UPDATE schools SET name = $1, address = $2, city = $3, state = $4, contact = $5,
      email_id = $6, updated_at = CURRENT_TIMESTAMP WHERE id = $7 RETURNING *\<close>:
      the new store and the rows returned\<close>
  "update_school db t n a c st contactNumber e schoolId =
     (case to_int8 contactNumber of
        Inl err \<Rightarrow> Inl err
      | Inr k \<Rightarrow>
        (case to_int4 schoolId of
           Inl err \<Rightarrow> Inl err
         | Inr i \<Rightarrow>
             Inr (db\<lparr>schools :=
                       map (\<lambda>s. if school_id s = i then set_fields t n a c st k e s else s)
                         (schools db)\<rparr>,
                  map (set_fields t n a c st k e)
                    (filter (\<lambda>s. school_id s = i) (schools db)))))"

definition delete_school :: "store \<Rightarrow> int \<Rightarrow> db_error + (store \<times> nat)" where
  \<comment> \<open>\<^verbatim>\<open>DELETE FROM schools WHERE id = $1\<close>: the new store and the row count\<close>
  "delete_school db schoolId =
     (case to_int4 schoolId of
        Inl err \<Rightarrow> Inl err
      | Inr i \<Rightarrow>
          Inr (db\<lparr>schools := filter (\<lambda>s. school_id s \<noteq> i) (schools db)\<rparr>,
               length (filter (\<lambda>s. school_id s = i) (schools db))))"

definition left_join :: "app_user list \<Rightarrow> school \<Rightarrow> (school \<times> string option) list" where
  \<comment> \<open>\<^verbatim>\<open>schools s LEFT JOIN app_users u ON s.created_by = u.id\<close> for one school row\<close>
  "left_join us s =
     (case filter (\<lambda>u. created_by s = Some (user_id u)) us of
        [] \<Rightarrow> [(s, None)]
      | ms \<Rightarrow> map (\<lambda>u. (s, Some (email u))) ms)"

definition select_joined :: "store \<Rightarrow> int \<Rightarrow> db_error + (school \<times> string option) list" where
  \<comment> \<open>\<^verbatim>\<open>SELECT s.*, u.email as created_by_email FROM schools s LEFT JOIN app_users u
      ON s.created_by = u.id WHERE s.id = $1\<close>\<close>
  "select_joined db schoolId =
     (case to_int4 schoolId of
        Inl e \<Rightarrow> Inl e
      | Inr i \<Rightarrow>
          Inr (concat (map (left_join (app_users db))
                 (filter (\<lambda>s. school_id s = i) (schools db)))))"

subsection \<open>Requests, responses and what a handler leaves behind\<close>

record request =
  auth_token :: "string option"  \<comment> \<open>the value of the cookie \<^verbatim>\<open>auth-token\<close>\<close>
  formData :: "(string \<Rightarrow> string option) option"  \<comment> \<open>\<open>None\<close>: the body is no form\<close>

record env =
  verifyToken :: "string \<Rightarrow> int option"
  now :: timestamp  \<comment> \<open>\<^verbatim>\<open>CURRENT_TIMESTAMP\<close>\<close>

datatype payload = NoData | Row school | Joined school "string option"

record response =
  status :: nat
  success :: bool
  error :: "string option"
  message :: "string option"
  data :: payload

datatype statement =
  SELECT_owner | UPDATE_school | DELETE_school | SELECT_joined | INSERT_school

datatype db_event = Connect | Query statement | Release

record outcome =
  resp :: response
  final :: store  \<comment> \<open>the store when the handler returns\<close>
  log :: "db_event list"  \<comment> \<open>what the handler did with the pool, in order\<close>

definition failure :: "nat \<Rightarrow> string \<Rightarrow> response" where
  "failure st msg =
     \<lparr>status = st, success = False, error = Some msg, message = None, data = NoData\<rparr>"

definition ok :: "string option \<Rightarrow> payload \<Rightarrow> response" where
  "ok msg d = \<lparr>status = 200, success = True, error = None, message = msg, data = d\<rparr>"

definition reply :: "response \<Rightarrow> store \<Rightarrow> db_event list \<Rightarrow> outcome" where
  "reply r db l = \<lparr>resp = r, final = db, log = l\<rparr>"

definition field :: "(string \<Rightarrow> string option) \<Rightarrow> string \<Rightarrow> string" where
  \<comment> \<open>a form value; null and the empty string are both falsy, and read as \<open>[]\<close>\<close>
  "field fd k = (case fd k of None \<Rightarrow> [] | Some v \<Rightarrow> v)"

record valid_form =
  v_name :: string
  v_address :: string
  v_city :: string
  v_state :: string
  contactNumber :: int
  v_email_id :: string

definition validate :: "(string \<Rightarrow> string option) \<Rightarrow> response + valid_form" where
  \<comment> \<open>lines 41 to 69 of \<^verbatim>\<open>PUT\<close>: the six form values and the three checks, in order\<close>
  "validate fd =
     (if field fd ''name'' = [] \<or> field fd ''address'' = [] \<or> field fd ''city'' = [] \<or>
         field fd ''state'' = [] \<or> field fd ''contact'' = [] \<or> field fd ''email_id'' = []
      then Inl (failure 400 ''All fields are required'')
      else if \<not> emailRegex_test (field fd ''email_id'')
      then Inl (failure 400 ''Invalid email format'')
      else
      (case parseInt (field fd ''contact'') of
         None \<Rightarrow> Inl (failure 400 ''Invalid contact number'')
       | Some n \<Rightarrow>
           if n \<le> 0 then Inl (failure 400 ''Invalid contact number'')
           else Inr \<lparr>v_name = field fd ''name'', v_address = field fd ''address'',
                     v_city = field fd ''city'', v_state = field fd ''state'',
                     contactNumber = n, v_email_id = field fd ''email_id''\<rparr>))"

subsection \<open>The handlers of route.ts\<close>

text \<open>
  Each handler sends its statements one by one, with no transaction around them, and
  other clients of the store run between two awaited statements. The handlers with a
  check and a write take what the other clients do between the two as the function
  \<open>other\<close> on the store; \<open>PUT\<close> and \<open>DELETE\<close> are the runs where nothing happens in
  between. The path parameter \<^verbatim>\<open>id\<close> is \<open>idp\<close> here.
\<close>

definition PUT_with :: "(store \<Rightarrow> store) \<Rightarrow> env \<Rightarrow> request \<Rightarrow> string \<Rightarrow> store \<Rightarrow> outcome" where
  "PUT_with other e request idp db =
     (case auth_token request of
        None \<Rightarrow> reply (failure 401 ''Authentication required'') db []
      | Some token \<Rightarrow>
        if token = [] then reply (failure 401 ''Authentication required'') db []
        else
        (case verifyToken e token of
           None \<Rightarrow> reply (failure 401 ''Invalid authentication token'') db []
         | Some userId \<Rightarrow>
           (case parseInt idp of
              None \<Rightarrow> reply (failure 400 ''Invalid school ID'') db []
            | Some schoolId \<Rightarrow>
              (case formData request of
                 None \<Rightarrow> reply (failure 500 ''Internal server error'') db []
               | Some fd \<Rightarrow>
                 (case validate fd of
                    Inl bad \<Rightarrow> reply bad db []
                  | Inr v \<Rightarrow>
                    (case select_owner db schoolId of
                       Inl err \<Rightarrow>
                         reply (failure 500 ''Failed to update school'') db
                           [Connect, Query SELECT_owner, Release]
                     | Inr [] \<Rightarrow>
                         reply (failure 404 ''School not found'') db
                           [Connect, Query SELECT_owner, Release]
                     | Inr (school # _) \<Rightarrow>
                         if number_of (snd school) \<noteq> Some userId
                         then reply (failure 403 ''You can only edit schools you created'') db
                                [Connect, Query SELECT_owner, Release]
                         else
                         (case update_school (other db) (now e) (v_name v) (v_address v)
                                 (v_city v) (v_state v) (contactNumber v) (v_email_id v)
                                 schoolId of
                            Inl err \<Rightarrow>
                              reply (failure 500 ''Failed to update school'') (other db)
                                [Connect, Query SELECT_owner, Query UPDATE_school, Release]
                          | Inr (db', []) \<Rightarrow>
                              reply (failure 500 ''Failed to update school'') db'
                                [Connect, Query SELECT_owner, Query UPDATE_school, Release]
                          | Inr (db', row # _) \<Rightarrow>
                              reply (ok (Some ''School updated successfully'') (Row row)) db'
                                [Connect, Query SELECT_owner, Query UPDATE_school,
                                 Release])))))))"

definition PUT :: "env \<Rightarrow> request \<Rightarrow> string \<Rightarrow> store \<Rightarrow> outcome" where
  "PUT = PUT_with (\<lambda>db. db)"

definition GET :: "request \<Rightarrow> string \<Rightarrow> store \<Rightarrow> outcome" where
  "GET request idp db =
     (case parseInt idp of
        None \<Rightarrow> reply (failure 400 ''Invalid school ID'') db []
      | Some schoolId \<Rightarrow>
        (case select_joined db schoolId of
           Inl err \<Rightarrow>
             \<comment> \<open>the query throws past \<^verbatim>\<open>client.release()\<close>\<close>
             reply (failure 500 ''Failed to fetch school'') db [Connect, Query SELECT_joined]
         | Inr [] \<Rightarrow>
             reply (failure 404 ''School not found'') db
               [Connect, Query SELECT_joined, Release]
         | Inr ((s, owner_email) # _) \<Rightarrow>
             reply (ok None (Joined s owner_email)) db
               [Connect, Query SELECT_joined, Release]))"

definition DELETE_with :: "(store \<Rightarrow> store) \<Rightarrow> env \<Rightarrow> request \<Rightarrow> string \<Rightarrow> store \<Rightarrow> outcome" where
  "DELETE_with other e request idp db =
     (case auth_token request of
        None \<Rightarrow> reply (failure 401 ''Authentication required'') db []
      | Some token \<Rightarrow>
        if token = [] then reply (failure 401 ''Authentication required'') db []
        else
        (case verifyToken e token of
           None \<Rightarrow> reply (failure 401 ''Invalid authentication token'') db []
         | Some userId \<Rightarrow>
           (case parseInt idp of
              None \<Rightarrow> reply (failure 400 ''Invalid school ID'') db []
            | Some schoolId \<Rightarrow>
              (case select_owner db schoolId of
                 Inl err \<Rightarrow>
                   reply (failure 500 ''Failed to delete school'') db
                     [Connect, Query SELECT_owner, Release]
               | Inr [] \<Rightarrow>
                   reply (failure 404 ''School not found'') db
                     [Connect, Query SELECT_owner, Release]
               | Inr (school # _) \<Rightarrow>
                   if number_of (snd school) \<noteq> Some userId
                   then reply (failure 403 ''You can only delete schools you created'') db
                          [Connect, Query SELECT_owner, Release]
                   else
                   (case delete_school (other db) schoolId of
                      Inl err \<Rightarrow>
                        reply (failure 500 ''Failed to delete school'') (other db)
                          [Connect, Query SELECT_owner, Query DELETE_school, Release]
                    | Inr (db', rowCount) \<Rightarrow>
                        if rowCount = 0
                        then reply (failure 500 ''Failed to delete school'') db'
                               [Connect, Query SELECT_owner, Query DELETE_school, Release]
                        else reply (ok (Some ''School deleted successfully'') NoData) db'
                               [Connect, Query SELECT_owner, Query DELETE_school,
                                Release])))))"

definition DELETE :: "env \<Rightarrow> request \<Rightarrow> string \<Rightarrow> store \<Rightarrow> outcome" where
  "DELETE = DELETE_with (\<lambda>db. db)"

subsection \<open>Creating a school\<close>

text \<open>
  Modelled from the spec: \<^verbatim>\<open>createSchool(fields, ownerId)\<close>, the handler of
  \<^verbatim>\<open>POST /schools\<close>, is not among the source files. The spec (4.5) says that it
  "validates all required fields present, contact parses as a positive integer, email
  matches a basic pattern; on success inserts a row owned by ownerId", and (7) that
  "input-validation failures are detected before any store access". The checks are taken
  to be those of \<open>validate\<close>, the new identifier to be the next one after those in use,
  and a value the column cannot hold to be a store failure (500).
\<close>

definition createSchool :: "env \<Rightarrow> (string \<Rightarrow> string option) \<Rightarrow> int \<Rightarrow> store \<Rightarrow> outcome" where
  "createSchool e fd ownerId db =
     (case validate fd of
        Inl bad \<Rightarrow> reply bad db []
      | Inr v \<Rightarrow>
        (case (to_int8 (contactNumber v), to_int4 ownerId) of
           (Inr k, Inr ow) \<Rightarrow>
             (let row = \<lparr>school_id = word_of_int (foldr max (map (sint \<circ> school_id) (schools db)) 0 + 1),
                         name = v_name v, address = v_address v, city = v_city v,
                         state = v_state v, contact = k, image = None,
                         email_id = v_email_id v, created_by = Some ow,
                         created_at = now e, updated_at = now e\<rparr>
              in reply (ok (Some ''School added successfully'') (Row row))
                   (db\<lparr>schools := schools db @ [row]\<rparr>)
                   [Connect, Query INSERT_school, Release])
         | _ \<Rightarrow>
             reply (failure 500 ''Failed to add school'') db
               [Connect, Query INSERT_school, Release]))"

subsection \<open>The schema of database.ts\<close>

datatype sql_type = SERIAL | INTEGER | BIGINT | TEXT | BOOLEAN | TIMESTAMP

datatype on_delete = NO_ACTION | CASCADE | SET_NULL

datatype col_attr =
    PRIMARY_KEY | UNIQUE | NOT_NULL | DEFAULT string
  | REFERENCES string string on_delete  \<comment> \<open>table, column, action\<close>

type_synonym column = "string \<times> sql_type \<times> col_attr list"

definition createUsersTable :: "column list" where
  "createUsersTable =
     [(''id'', SERIAL, [PRIMARY_KEY]),
      (''email'', TEXT, [UNIQUE, NOT_NULL]),
      (''password_hash'', TEXT, [NOT_NULL]),
      (''is_verified'', BOOLEAN, [DEFAULT ''FALSE'']),
      (''created_at'', TIMESTAMP, [DEFAULT ''CURRENT_TIMESTAMP'']),
      (''last_login'', TIMESTAMP, []),
      (''updated_at'', TIMESTAMP, [DEFAULT ''CURRENT_TIMESTAMP''])]"

definition createOtpTable :: "column list" where
  "createOtpTable =
     [(''id'', SERIAL, [PRIMARY_KEY]),
      (''user_id'', INTEGER, [REFERENCES ''app_users'' ''id'' CASCADE]),
      (''otp_hash'', TEXT, [NOT_NULL]),
      (''expires_at'', TIMESTAMP, [NOT_NULL]),
      (''created_at'', TIMESTAMP, [DEFAULT ''CURRENT_TIMESTAMP''])]"

definition createSchoolsTable :: "column list" where
  "createSchoolsTable =
     [(''id'', SERIAL, [PRIMARY_KEY]),
      (''name'', TEXT, [NOT_NULL]),
      (''address'', TEXT, [NOT_NULL]),
      (''city'', TEXT, [NOT_NULL]),
      (''state'', TEXT, [NOT_NULL]),
      (''contact'', BIGINT, [NOT_NULL]),
      (''image'', TEXT, []),
      (''email_id'', TEXT, [NOT_NULL]),
      (''created_by'', INTEGER, [REFERENCES ''app_users'' ''id'' SET_NULL]),
      (''created_at'', TIMESTAMP, [DEFAULT ''CURRENT_TIMESTAMP'']),
      (''updated_at'', TIMESTAMP, [DEFAULT ''CURRENT_TIMESTAMP''])]"

fun ref_of :: "col_attr list \<Rightarrow> (string \<times> string \<times> on_delete) option" where
  "ref_of [] = None"
| "ref_of (REFERENCES t c a # _) = Some (t, c, a)"
| "ref_of (_ # as) = ref_of as"

fun column_ref :: "column list \<Rightarrow> string \<Rightarrow> (string \<times> string \<times> on_delete) option" where
  \<comment> \<open>the foreign key a column of a table definition declares\<close>
  "column_ref [] c = None"
| "column_ref ((n, _, as) # cols) c = (if n = c then ref_of as else column_ref cols c)"

subsection \<open>Removing a user\<close>

text \<open>
  No handler among the source files removes a user; the schema says what the store
  does when a row of \<^verbatim>\<open>app_users\<close> goes (\<^verbatim>\<open>DELETE FROM app_users WHERE id = $1\<close>):
  each table that references it follows its own \<^verbatim>\<open>ON DELETE\<close> action.
\<close>

datatype fk_error = ForeignKeyViolation

definition referencing ::
  "(string \<times> string \<times> on_delete) option \<Rightarrow> int4 \<Rightarrow> ('r \<Rightarrow> int4 option) \<Rightarrow> ('r \<Rightarrow> 'r) \<Rightarrow>
     'r list \<Rightarrow> fk_error + 'r list" where
  \<comment> \<open>the rows of a referencing table after the referenced row \<open>uid\<close> is deleted;
      \<open>ref\<close> reads the referencing column and \<open>clear\<close> sets it to null\<close>
  "referencing fk uid ref clear rows =
     (case fk of
        Some (_, _, CASCADE) \<Rightarrow> Inr (filter (\<lambda>r. ref r \<noteq> Some uid) rows)
      | Some (_, _, SET_NULL) \<Rightarrow> Inr (map (\<lambda>r. if ref r = Some uid then clear r else r) rows)
      | Some (_, _, NO_ACTION) \<Rightarrow>
          if list_ex (\<lambda>r. ref r = Some uid) rows then Inl ForeignKeyViolation else Inr rows
      | None \<Rightarrow> Inr rows)"

definition delete_user :: "store \<Rightarrow> int4 \<Rightarrow> fk_error + store" where
  "delete_user db uid =
     (case referencing (column_ref createOtpTable ''user_id'') uid otp_user_id
             (\<lambda>r. r\<lparr>otp_user_id := None\<rparr>) (otp_verifications db) of
        Inl err \<Rightarrow> Inl err
      | Inr otps \<Rightarrow>
        (case referencing (column_ref createSchoolsTable ''created_by'') uid created_by
                (\<lambda>s. s\<lparr>created_by := None\<rparr>) (schools db) of
           Inl err \<Rightarrow> Inl err
         | Inr ss \<Rightarrow>
             Inr \<lparr>app_users = filter (\<lambda>u. user_id u \<noteq> uid) (app_users db),
                  otp_verifications = otps, schools = ss\<rparr>))"

definition user_removed :: "int4 \<Rightarrow> store \<Rightarrow> store" where
  \<comment> \<open>another client removes a user; a refused removal leaves the store as it is\<close>
  "user_removed uid db = (case delete_user db uid of Inl _ \<Rightarrow> db | Inr db' \<Rightarrow> db')"

subsection \<open>initializeDatabase\<close>

record catalog =
  tables :: "string \<rightharpoonup> column list"
  sql_functions :: "string \<rightharpoonup> string"  \<comment> \<open>name to body\<close>
  triggers :: "string \<rightharpoonup> string \<times> string"  \<comment> \<open>name to table and function\<close>

datatype ddl =
    CREATE_TABLE_IF_NOT_EXISTS string "column list"
  | CREATE_OR_REPLACE_FUNCTION string string
  | CREATE_TRIGGER_UNLESS_NAMED string string string  \<comment> \<open>trigger, table, function\<close>

datatype ddl_error = UndefinedTable string | UndefinedColumn string | UndefinedFunction string

definition has_key :: "column list \<Rightarrow> string \<Rightarrow> bool" where
  \<comment> \<open>a column a foreign key may reference\<close>
  "has_key cols c =
     list_ex (\<lambda>(n, _, as). n = c \<and> (PRIMARY_KEY \<in> set as \<or> UNIQUE \<in> set as)) cols"

fun check_refs :: "catalog \<Rightarrow> column list \<Rightarrow> ddl_error option" where
  "check_refs cat [] = None"
| "check_refs cat ((_, _, as) # cols) =
     (case ref_of as of
        None \<Rightarrow> check_refs cat cols
      | Some (t, c, _) \<Rightarrow>
        (case tables cat t of
           None \<Rightarrow> Some (UndefinedTable t)
         | Some tcols \<Rightarrow> if has_key tcols c then check_refs cat cols
                         else Some (UndefinedColumn c)))"

fun exec :: "ddl \<Rightarrow> catalog \<Rightarrow> ddl_error + catalog" where
  "exec (CREATE_TABLE_IF_NOT_EXISTS t cols) cat =
     (case tables cat t of
        Some _ \<Rightarrow> Inr cat
      | None \<Rightarrow>
        (case check_refs cat cols of
           Some err \<Rightarrow> Inl err
         | None \<Rightarrow> Inr (cat\<lparr>tables := (tables cat)(t \<mapsto> cols)\<rparr>)))"
| "exec (CREATE_OR_REPLACE_FUNCTION f body) cat =
     Inr (cat\<lparr>sql_functions := (sql_functions cat)(f \<mapsto> body)\<rparr>)"
| "exec (CREATE_TRIGGER_UNLESS_NAMED g t f) cat =
     (case triggers cat g of
        Some _ \<Rightarrow> Inr cat
      | None \<Rightarrow>
        (case tables cat t of
           None \<Rightarrow> Inl (UndefinedTable t)
         | Some _ \<Rightarrow>
           (case sql_functions cat f of
              None \<Rightarrow> Inl (UndefinedFunction f)
            | Some _ \<Rightarrow> Inr (cat\<lparr>triggers := (triggers cat)(g \<mapsto> (t, f))\<rparr>))))"

fun run :: "ddl list \<Rightarrow> catalog \<Rightarrow> ddl_error option \<times> catalog" where
  \<comment> \<open>the awaited queries in order; the first that throws ends the run\<close>
  "run [] cat = (None, cat)"
| "run (q # qs) cat = (case exec q cat of Inl err \<Rightarrow> (Some err, cat) | Inr cat' \<Rightarrow> run qs cat')"

fun settled :: "ddl \<Rightarrow> catalog \<Rightarrow> bool" where
  \<comment> \<open>the statement has nothing left to do in this catalog\<close>
  "settled (CREATE_TABLE_IF_NOT_EXISTS t cols) cat = (tables cat t \<noteq> None)"
| "settled (CREATE_OR_REPLACE_FUNCTION f body) cat = (sql_functions cat f = Some body)"
| "settled (CREATE_TRIGGER_UNLESS_NAMED g t f) cat = (triggers cat g \<noteq> None)"

definition createUpdateFunction :: string where
  "createUpdateFunction = ''BEGIN NEW.updated_at = CURRENT_TIMESTAMP; RETURN NEW; END;''"

definition queries :: "ddl list" where
  \<comment> \<open>lines 103 to 108\<close>
  "queries =
     [CREATE_TABLE_IF_NOT_EXISTS ''app_users'' createUsersTable,
      CREATE_TABLE_IF_NOT_EXISTS ''otp_verifications'' createOtpTable,
      CREATE_TABLE_IF_NOT_EXISTS ''schools'' createSchoolsTable,
      CREATE_OR_REPLACE_FUNCTION ''update_updated_at_column'' createUpdateFunction,
      CREATE_TRIGGER_UNLESS_NAMED ''update_app_users_updated_at'' ''app_users''
        ''update_updated_at_column'',
      CREATE_TRIGGER_UNLESS_NAMED ''update_schools_updated_at'' ''schools''
        ''update_updated_at_column'']"

record process =
  isInitializing :: bool
  isInitialized :: bool
  schema :: catalog  \<comment> \<open>the catalog of the store the pool is connected to\<close>

definition initializeDatabase_with :: "(process \<Rightarrow> process) \<Rightarrow> process \<Rightarrow> ddl_error option \<times> process" where
  \<comment> \<open>the error thrown, if any, and the flags and catalog when the call has settled;
      \<open>others\<close> is what runs in the process while the call awaits its connection\<close>
  "initializeDatabase_with others p =
     (if isInitialized p \<or> isInitializing p then (None, p)
      else
        (let p1 = others (p\<lparr>isInitializing := True\<rparr>) in
         case run queries (schema p1) of
           (None, cat) \<Rightarrow>
             (None, p1\<lparr>isInitialized := True, isInitializing := False, schema := cat\<rparr>)
         | (Some err, cat) \<Rightarrow>
             (Some err, p1\<lparr>isInitializing := False, schema := cat\<rparr>)))"

definition initializeDatabase :: "process \<Rightarrow> ddl_error option \<times> process" where
  "initializeDatabase = initializeDatabase_with (\<lambda>p. p)"

definition fresh :: "catalog \<Rightarrow> process" where
  \<comment> \<open>a process that has just loaded the module (lines 15 and 16)\<close>
  "fresh cat = \<lparr>isInitializing = False, isInitialized = False, schema = cat\<rparr>"

definition empty_catalog :: catalog where
  "empty_catalog = \<lparr>tables = Map.empty, sql_functions = Map.empty, triggers = Map.empty\<rparr>"

subsection \<open>A small store, for the examples\<close>

definition user7 :: app_user where
  "user7 = \<lparr>user_id = 7, email = ''a@x.com'', password_hash = ''h'', is_verified = True,
            user_created_at = 1, last_login = None, user_updated_at = 1\<rparr>"

definition school1 :: school where
  \<comment> \<open>the school of the spec's end-to-end scenario, owned by user 7\<close>
  "school1 = \<lparr>school_id = 1, name = ''X'', address = ''1 Rd'', city = ''C'', state = ''S'',
              contact = 5551234, image = None, email_id = ''x@x.com'', created_by = Some 7,
              created_at = 2, updated_at = 2\<rparr>"

definition school2 :: school where
  \<comment> \<open>a school whose creator is gone\<close>
  "school2 = \<lparr>school_id = 2, name = ''Y'', address = ''2 Rd'', city = ''D'', state = ''T'',
              contact = 5550000, image = None, email_id = ''y@y.org'', created_by = None,
              created_at = 3, updated_at = 3\<rparr>"

definition db1 :: store where
  "db1 = \<lparr>app_users = [user7], otp_verifications = [], schools = [school1, school2]\<rparr>"

definition env1 :: env where
  "env1 = \<lparr>verifyToken = (\<lambda>t. if t = ''t7'' then Some 7 else if t = ''t8'' then Some 8 else None),
           now = 9\<rparr>"

definition form1 :: "string \<Rightarrow> string option" where
  "form1 = map_of [(''name'', ''Z''), (''address'', ''3 Rd''), (''city'', ''E''), (''state'', ''U''),
                   (''contact'', ''5559999''), (''email_id'', ''z@z.net'')]"

definition form0 :: "string \<Rightarrow> string option" where
  \<comment> \<open>a form without a name\<close>
  "form0 = map_of [(''address'', ''3 Rd''), (''city'', ''E''), (''state'', ''U''),
                   (''contact'', ''5559999''), (''email_id'', ''z@z.net'')]"

definition req7 :: request where
  "req7 = \<lparr>auth_token = Some ''t7'', formData = Some form1\<rparr>"

definition req8 :: request where
  "req8 = \<lparr>auth_token = Some ''t8'', formData = Some form1\<rparr>"

definition req0 :: request where
  \<comment> \<open>no cookie\<close>
  "req0 = \<lparr>auth_token = None, formData = Some form1\<rparr>"

section \<open>Auxiliary facts\<close>

subsection \<open>Column values and the first row of a selection\<close>

lemma sint_int4_bounds: "- (2 ^ 31) \<le> sint (w :: int4) \<and> sint w < 2 ^ 31"
  using sint_ge [of w] sint_lt [of w] by simp

lemma sint_word_of_int4:
  "- (2 ^ 31) \<le> n \<Longrightarrow> n < 2 ^ 31 \<Longrightarrow> sint (word_of_int n :: int4) = n"
  by (simp add: sint_sbintrunc' signed_take_bit_int_eq_self)

lemma int4_eq_iff:
  "- (2 ^ 31) \<le> n \<Longrightarrow> n < 2 ^ 31 \<Longrightarrow> ((w :: int4) = word_of_int n) = (sint w = n)"
  using sint_word_of_int4 [of n] by auto

lemma find_None_filter: "find P xs = None \<Longrightarrow> filter P xs = []"
  by (induction xs) (auto split: if_splits)

lemma find_Some_filter: "find P xs = Some x \<Longrightarrow> \<exists>ys. filter P xs = x # ys"
  by (induction xs) (auto split: if_splits)

lemma select_owner_eq:
  "select_owner db n =
     (if - (2 ^ 31) \<le> n \<and> n < 2 ^ 31
      then Inr (map (\<lambda>s. (school_id s, created_by s))
                 (filter (\<lambda>s. sint (school_id s) = n) (schools db)))
      else Inl OutOfRange)"
  by (simp add: select_owner_def to_int4_def int4_eq_iff)

lemma delete_school_eq:
  "delete_school db n =
     (if - (2 ^ 31) \<le> n \<and> n < 2 ^ 31
      then Inr (db\<lparr>schools := filter (\<lambda>s. sint (school_id s) \<noteq> n) (schools db)\<rparr>,
                length (filter (\<lambda>s. sint (school_id s) = n) (schools db)))
      else Inl OutOfRange)"
  by (simp add: delete_school_def to_int4_def int4_eq_iff)


lemma select_joined_eq:
  "select_joined db n =
     (if - (2 ^ 31) \<le> n \<and> n < 2 ^ 31
      then Inr (concat (map (left_join (app_users db))
                 (filter (\<lambda>s. sint (school_id s) = n) (schools db))))
      else Inl OutOfRange)"
  by (simp add: select_joined_def to_int4_def int4_eq_iff)

lemma left_join_head:
  "\<exists>ys. left_join us s =
     (s, case created_by s of None \<Rightarrow> None
         | Some u \<Rightarrow> map_option email (find (\<lambda>a. user_id a = u) us)) # ys"
proof (cases "created_by s")
  case None
  then show ?thesis by (simp add: left_join_def)
next
  case (Some u)
  have eq: "(\<lambda>a. Some u = Some (user_id a)) = (\<lambda>a. user_id a = u)"
    by auto
  have lj: "left_join us s =
     (case filter (\<lambda>a. user_id a = u) us of [] \<Rightarrow> [(s, None)]
      | ms \<Rightarrow> map (\<lambda>u. (s, Some (email u))) ms)"
    unfolding left_join_def Some eq ..
  show ?thesis
  proof (cases "find (\<lambda>a. user_id a = u) us")
    case None
    then show ?thesis using Some by (simp add: lj find_None_filter)
  next
    case (Some a)
    then obtain zs where "filter (\<lambda>a. user_id a = u) us = a # zs"
      using find_Some_filter by fastforce
    then show ?thesis using \<open>created_by s = Some u\<close> Some by (simp add: lj)
  qed
qed

subsection \<open>The handlers on an authenticated request\<close>

lemma PUT_with_valid:
  assumes "auth_token request = Some t" and "t \<noteq> []" and "verifyToken e t = Some u"
    and "parseInt idp = Some n" and "formData request = Some fd" and "validate fd = Inr v"
  shows "PUT_with other e request idp db =
     (if \<not> (- (2 ^ 31) \<le> n \<and> n < 2 ^ 31)
      then reply (failure 500 ''Failed to update school'') db
             [Connect, Query SELECT_owner, Release]
      else
      (case find (\<lambda>s. sint (school_id s) = n) (schools db) of
         None \<Rightarrow>
           reply (failure 404 ''School not found'') db [Connect, Query SELECT_owner, Release]
       | Some s \<Rightarrow>
           if number_of (created_by s) \<noteq> Some u
           then reply (failure 403 ''You can only edit schools you created'') db
                  [Connect, Query SELECT_owner, Release]
           else
           (case update_school (other db) (now e) (v_name v) (v_address v) (v_city v)
                   (v_state v) (contactNumber v) (v_email_id v) n of
              Inl err \<Rightarrow>
                reply (failure 500 ''Failed to update school'') (other db)
                  [Connect, Query SELECT_owner, Query UPDATE_school, Release]
            | Inr (db', []) \<Rightarrow>
                reply (failure 500 ''Failed to update school'') db'
                  [Connect, Query SELECT_owner, Query UPDATE_school, Release]
            | Inr (db', row # _) \<Rightarrow>
                reply (ok (Some ''School updated successfully'') (Row row)) db'
                  [Connect, Query SELECT_owner, Query UPDATE_school, Release])))"
proof (cases "find (\<lambda>s. sint (school_id s) = n) (schools db)")
  case None
  then show ?thesis
    using assms by (simp add: PUT_with_def select_owner_eq find_None_filter)
next
  case (Some s)
  then obtain ys where "filter (\<lambda>s. sint (school_id s) = n) (schools db) = s # ys"
    using find_Some_filter by fastforce
  then show ?thesis
    using assms Some by (simp add: PUT_with_def select_owner_eq)
qed

lemma DELETE_with_auth:
  assumes "auth_token request = Some t" and "t \<noteq> []" and "verifyToken e t = Some u"
    and "parseInt idp = Some n"
  shows "DELETE_with other e request idp db =
     (if \<not> (- (2 ^ 31) \<le> n \<and> n < 2 ^ 31)
      then reply (failure 500 ''Failed to delete school'') db
             [Connect, Query SELECT_owner, Release]
      else
      (case find (\<lambda>s. sint (school_id s) = n) (schools db) of
         None \<Rightarrow>
           reply (failure 404 ''School not found'') db [Connect, Query SELECT_owner, Release]
       | Some s \<Rightarrow>
           if number_of (created_by s) \<noteq> Some u
           then reply (failure 403 ''You can only delete schools you created'') db
                  [Connect, Query SELECT_owner, Release]
           else if filter (\<lambda>s. sint (school_id s) = n) (schools (other db)) = []
           then reply (failure 500 ''Failed to delete school'')
                  ((other db)\<lparr>schools := filter (\<lambda>s. sint (school_id s) \<noteq> n) (schools (other db))\<rparr>)
                  [Connect, Query SELECT_owner, Query DELETE_school, Release]
           else reply (ok (Some ''School deleted successfully'') NoData)
                  ((other db)\<lparr>schools := filter (\<lambda>s. sint (school_id s) \<noteq> n) (schools (other db))\<rparr>)
                  [Connect, Query SELECT_owner, Query DELETE_school, Release]))"
proof (cases "find (\<lambda>s. sint (school_id s) = n) (schools db)")
  case None
  then show ?thesis
    using assms by (simp add: DELETE_with_def select_owner_eq find_None_filter)
next
  case (Some s)
  then obtain ys where "filter (\<lambda>s. sint (school_id s) = n) (schools db) = s # ys"
    using find_Some_filter by fastforce
  then show ?thesis
    using assms Some by (simp add: DELETE_with_def select_owner_eq delete_school_eq)
qed


lemma filter_Cons_find: "filter P xs = y # ys \<Longrightarrow> find P xs = Some y"
  by (induction xs) (auto split: if_splits)

lemma select_owner_first:
  "select_owner db n = Inr (r # rs) \<Longrightarrow>
     \<exists>s. find (\<lambda>s. sint (school_id s) = n) (schools db) = Some s \<and> snd r = created_by s"
  by (auto simp: select_owner_eq split: if_splits dest!: filter_Cons_find [of _ _ _ "[]" for x]
      simp: map_eq_Cons_conv dest: filter_Cons_find)

lemma validate_status: "validate fd = Inl bad \<Longrightarrow> status bad = 400"
  by (auto simp: validate_def failure_def split: if_splits option.splits)

lemma PUT_with_200:
  assumes "status (resp (PUT_with other e request idp db)) = 200"
  shows "\<exists>t u n s. auth_token request = Some t \<and> t \<noteq> [] \<and> verifyToken e t = Some u \<and>
           parseInt idp = Some n \<and>
           find (\<lambda>s. sint (school_id s) = n) (schools db) = Some s \<and>
           number_of (created_by s) = Some u"
  using assms
  by (auto simp: PUT_with_def reply_def failure_def
      split: option.splits if_splits sum.splits list.splits prod.splits
      dest: validate_status dest!: select_owner_first)

lemma DELETE_with_200:
  assumes "status (resp (DELETE_with other e request idp db)) = 200"
  shows "\<exists>t u n s. auth_token request = Some t \<and> t \<noteq> [] \<and> verifyToken e t = Some u \<and>
           parseInt idp = Some n \<and>
           find (\<lambda>s. sint (school_id s) = n) (schools db) = Some s \<and>
           number_of (created_by s) = Some u"
  using assms
  by (auto simp: DELETE_with_def reply_def failure_def
      split: option.splits if_splits sum.splits list.splits prod.splits
      dest!: select_owner_first)

lemma PUT_final:
  "final (PUT e request idp db) = db \<or> status (resp (PUT e request idp db)) = 200"
  by (auto simp: PUT_def PUT_with_def reply_def failure_def ok_def update_school_def select_owner_def
      split: option.splits if_splits sum.splits list.splits prod.splits)

lemma DELETE_final:
  "final (DELETE e request idp db) = db \<or> status (resp (DELETE e request idp db)) = 200"
  by (auto simp: DELETE_def DELETE_with_def reply_def failure_def ok_def delete_school_def select_owner_def
      split: option.splits if_splits sum.splits list.splits prod.splits)

lemma unauthenticated:
  assumes "auth_token request = None \<or>
           (\<exists>t. auth_token request = Some t \<and> (t = [] \<or> verifyToken e t = None))"
  shows "status (resp (PUT_with other e request idp db)) = 401 \<and>
         final (PUT_with other e request idp db) = db \<and>
         log (PUT_with other e request idp db) = [] \<and>
         status (resp (DELETE_with other e request idp db)) = 401 \<and>
         final (DELETE_with other e request idp db) = db \<and>
         log (DELETE_with other e request idp db) = []"
  using assms
  by (auto simp: PUT_with_def DELETE_with_def reply_def failure_def)

lemma not_owner:
  assumes "auth_token request = Some t" and "t \<noteq> []" and "verifyToken e t = Some u"
    and "parseInt idp = Some n"
    and "find (\<lambda>s. sint (school_id s) = n) (schools db) = Some s"
    and "number_of (created_by s) \<noteq> Some u"
  shows "DELETE e request idp db =
           reply (failure 403 ''You can only delete schools you created'') db
             [Connect, Query SELECT_owner, Release]"
    and "final (PUT e request idp db) = db"
    and "formData request = Some fd \<Longrightarrow> validate fd = Inr v \<Longrightarrow>
         PUT e request idp db =
           reply (failure 403 ''You can only edit schools you created'') db
             [Connect, Query SELECT_owner, Release]"
proof -
  have r: "- (2 ^ 31) \<le> n \<and> n < 2 ^ 31"
    using assms(5) sint_int4_bounds [of "school_id s"] by (auto simp: find_Some_iff)
  show "DELETE e request idp db =
           reply (failure 403 ''You can only delete schools you created'') db
             [Connect, Query SELECT_owner, Release]"
    using assms r by (simp add: DELETE_def DELETE_with_auth)
  show "formData request = Some fd \<Longrightarrow> validate fd = Inr v \<Longrightarrow>
         PUT e request idp db =
           reply (failure 403 ''You can only edit schools you created'') db
             [Connect, Query SELECT_owner, Release]"
    using assms r by (simp add: PUT_def PUT_with_valid)
  show "final (PUT e request idp db) = db"
  proof (rule ccontr)
    assume "final (PUT e request idp db) \<noteq> db"
    then have "status (resp (PUT_with (\<lambda>db. db) e request idp db)) = 200"
      using PUT_final [of e request idp db] by (simp add: PUT_def)
    then show False
      using PUT_with_200 [of "\<lambda>db. db" e request idp db] assms by auto
  qed
qed

lemma validate_rejects:
  assumes "field fd ''name'' = [] \<or> field fd ''address'' = [] \<or> field fd ''city'' = [] \<or>
           field fd ''state'' = [] \<or> field fd ''contact'' = [] \<or> field fd ''email_id'' = [] \<or>
           \<not> emailRegex_test (field fd ''email_id'') \<or>
           parseInt (field fd ''contact'') = None \<or>
           (\<exists>k. parseInt (field fd ''contact'') = Some k \<and> k \<le> 0)"
  shows "\<exists>bad. validate fd = Inl bad \<and> status bad = 400"
  using assms by (auto simp: validate_def failure_def split: option.splits)

subsection \<open>parseInt on a path id\<close>

lemma decimal_digit:
  "digit_of 10 c \<noteq> None \<Longrightarrow>
     \<not> is_ws c \<and> c \<noteq> CHR ''+'' \<and> c \<noteq> CHR ''-'' \<and> c \<noteq> CHR ''x'' \<and> c \<noteq> CHR ''X''"
  by (auto simp: digit_of_def is_ws_def Let_def split: if_splits)

lemma radix_digits_stop: "g = [] \<or> digit_of R (hd g) = None \<Longrightarrow> radix_digits R g = []"
  by (cases g) auto

lemma radix_digits_append:
  "\<forall>c\<in>set ds. digit_of R c \<noteq> None \<Longrightarrow> g = [] \<or> digit_of R (hd g) = None \<Longrightarrow>
     radix_digits R (ds @ g) = radix_digits R ds"
  by (induction ds) (auto simp: radix_digits_stop)

lemma parseInt_numeric_prefix:
  assumes "ds \<noteq> []" and "\<forall>c\<in>set ds. digit_of 10 c \<noteq> None"
    and "g = [] \<or> digit_of 10 (hd g) = None"
    and "\<not> (ds = ''0'' \<and> g \<noteq> [] \<and> (hd g = CHR ''x'' \<or> hd g = CHR ''X''))"
  shows "parseInt (ds @ g) = parseInt ds"
proof -
  obtain a r where ds: "ds = a # r" using assms(1) by (cases ds) auto
  have a: "\<not> is_ws a" "a \<noteq> CHR ''+''" "a \<noteq> CHR ''-''"
    using decimal_digit [of a] assms(2) ds by auto
  have sp: "strip_prefix (ds @ g) = (10, ds @ g) \<and> strip_prefix ds = (10, ds)"
  proof (cases r)
    case Nil
    then show ?thesis
      using assms(4) ds by (cases g) (auto simp: strip_prefix_def)
  next
    case (Cons b r')
    then have "b \<noteq> CHR ''x'' \<and> b \<noteq> CHR ''X''"
      using decimal_digit [of b] assms(2) ds by auto
    then show ?thesis
      using Cons ds by (simp add: strip_prefix_def)
  qed
  show ?thesis
    using a sp radix_digits_append [OF assms(2,3)]
    by (simp add: parseInt_def ds strip_sign_def Let_def)
qed

lemma invalid_id:
  assumes "parseInt idp = None"
  shows "GET request idp db = reply (failure 400 ''Invalid school ID'') db []"
    and "auth_token request = Some t \<Longrightarrow> t \<noteq> [] \<Longrightarrow> verifyToken e t = Some u \<Longrightarrow>
         PUT_with other e request idp db = reply (failure 400 ''Invalid school ID'') db []"
    and "auth_token request = Some t \<Longrightarrow> t \<noteq> [] \<Longrightarrow> verifyToken e t = Some u \<Longrightarrow>
         DELETE_with other e request idp db = reply (failure 400 ''Invalid school ID'') db []"
  using assms by (simp_all add: GET_def PUT_with_def DELETE_with_def)

lemma same_parse:
  assumes "parseInt idp = parseInt idp'"
  shows "GET request idp db = GET request idp' db"
    and "PUT_with other e request idp db = PUT_with other e request idp' db"
    and "DELETE_with other e request idp db = DELETE_with other e request idp' db"
  unfolding GET_def PUT_with_def DELETE_with_def assms by (rule refl)+

subsection \<open>Unfolding the examples\<close>

lemmas num_defs = parseInt_def strip_sign_def strip_prefix_def digit_of_def is_ws_def

lemmas ex_defs = db1_def school1_def school2_def user7_def env1_def form1_def form0_def
  req7_def req8_def req0_def

lemmas form_defs = validate_def field_def emailRegex_test_def plain_def

subsection \<open>Running the schema statements twice\<close>

lemma settled_noop: "settled q c \<Longrightarrow> exec q c = Inr c"
  by (cases q) (auto simp: fun_upd_idem)

lemma exec_settles: "exec q c = Inr c' \<Longrightarrow> settled q c'"
  by (cases q) (auto split: option.splits)

lemma exec_keeps_table:
  "exec (CREATE_TABLE_IF_NOT_EXISTS t cols) c = Inr c' \<Longrightarrow> settled p c \<Longrightarrow> settled p c'"
  by (cases p) (auto split: option.splits)

lemma exec_keeps_trigger:
  "exec (CREATE_TRIGGER_UNLESS_NAMED g t f) c = Inr c' \<Longrightarrow> settled p c \<Longrightarrow> settled p c'"
  by (cases p) (auto split: option.splits)

lemma exec_keeps_function:
  "exec (CREATE_OR_REPLACE_FUNCTION f b') c = Inr c' \<Longrightarrow> settled p c \<Longrightarrow>
     (\<forall>b. p = CREATE_OR_REPLACE_FUNCTION f b \<longrightarrow> b = b') \<Longrightarrow> settled p c'"
  by (cases p) auto

lemma exec_keeps:
  assumes "exec q c = Inr c'" and "settled p c"
    and "\<And>f b b'. p = CREATE_OR_REPLACE_FUNCTION f b \<Longrightarrow> q = CREATE_OR_REPLACE_FUNCTION f b' \<Longrightarrow> b = b'"
  shows "settled p c'"
proof (cases q)
  case (CREATE_TABLE_IF_NOT_EXISTS t cols)
  then show ?thesis using assms(1,2) exec_keeps_table by blast
next
  case (CREATE_OR_REPLACE_FUNCTION f b')
  have "\<forall>b. p = CREATE_OR_REPLACE_FUNCTION f b \<longrightarrow> b = b'"
    using assms(3) CREATE_OR_REPLACE_FUNCTION by blast
  then show ?thesis
    using assms(1,2) CREATE_OR_REPLACE_FUNCTION exec_keeps_function by blast
next
  case (CREATE_TRIGGER_UNLESS_NAMED g t f)
  then show ?thesis using assms(1,2) exec_keeps_trigger by blast
qed

lemma run_settled: "\<forall>p\<in>set ps. settled p c \<Longrightarrow> run (ps @ qs) c = run qs c"
  by (induction ps) (auto simp: settled_noop)

lemma run_again:
  assumes "\<And>f b b'. CREATE_OR_REPLACE_FUNCTION f b \<in> S \<Longrightarrow>
             CREATE_OR_REPLACE_FUNCTION f b' \<in> S \<Longrightarrow> b = b'"
  shows "set ps \<union> set qs \<subseteq> S \<Longrightarrow> \<forall>p\<in>set ps. settled p c \<Longrightarrow> run qs c = (r, c') \<Longrightarrow>
           run (ps @ qs) c' = (r, c')"
proof (induction qs arbitrary: ps c)
  case Nil
  then show ?case using run_settled [of ps c "[]"] by simp
next
  case (Cons q qs)
  show ?case
  proof (cases "exec q c")
    case (Inl e)
    then have "r = Some e" "c' = c" using Cons.prems(3) by auto
    then show ?thesis
      using Cons.prems(2) Inl run_settled [of ps c "q # qs"] by simp
  next
    case (Inr c1)
    then have r: "run qs c1 = (r, c')" using Cons.prems(3) by simp
    have s: "\<forall>p\<in>set (ps @ [q]). settled p c1"
    proof
      fix p assume "p \<in> set (ps @ [q])"
      then consider "p = q" | "p \<in> set ps" by auto
      then show "settled p c1"
      proof cases
        case 1
        then show ?thesis using Inr exec_settles by blast
      next
        case 2
        have "b = b'" if "p = CREATE_OR_REPLACE_FUNCTION f b" "q = CREATE_OR_REPLACE_FUNCTION f b'"
          for f b b'
          using that 2 Cons.prems(1) assms [of f b b'] by auto
        then show ?thesis
          using exec_keeps [OF Inr, of p] 2 Cons.prems(2) by blast
      qed
    qed
    have "run ((ps @ [q]) @ qs) c' = (r, c')"
      using Cons.IH [of "ps @ [q]" c1] Cons.prems(1) s r by simp
    then show ?thesis by simp
  qed
qed

lemma run_queries_again: "run queries c = (r, c') \<Longrightarrow> run queries c' = (r, c')"
proof -
  have "b = b'" if "CREATE_OR_REPLACE_FUNCTION f b \<in> set queries"
    "CREATE_OR_REPLACE_FUNCTION f b' \<in> set queries" for f b b'
    using that by (auto simp: queries_def)
  then show "run queries c = (r, c') \<Longrightarrow> run queries c' = (r, c')"
    using run_again [of "set queries" "[]" queries c r c'] by auto
qed

lemma guarded: "isInitialized p \<or> isInitializing p \<Longrightarrow> initializeDatabase_with others p = (None, p)"
  by (simp add: initializeDatabase_with_def)

lemma repeat_guarded:
  "isInitialized p \<or> isInitializing p \<Longrightarrow> ((snd \<circ> initializeDatabase) ^^ k) p = p"
  by (induction k) (auto simp: initializeDatabase_def guarded)

lemma init_again:
  assumes "initializeDatabase p = (r, p')"
  shows "initializeDatabase p' = (r, p')"
proof (cases "isInitialized p \<or> isInitializing p")
  case True
  then show ?thesis using assms by (simp add: initializeDatabase_def guarded)
next
  case False
  obtain e c where rc: "run queries (schema p) = (e, c)" by (cases "run queries (schema p)")
  have rc': "run queries c = (e, c)" using rc by (rule run_queries_again)
  show ?thesis
  proof (cases e)
    case None
    then show ?thesis
      using assms False rc by (auto simp: initializeDatabase_def initializeDatabase_with_def)
  next
    case (Some err)
    then show ?thesis
      using assms False rc rc'
      by (auto simp: initializeDatabase_def initializeDatabase_with_def)
  qed
qed

lemma init_concurrent:
  "initializeDatabase_with ((snd \<circ> initializeDatabase) ^^ k) p = initializeDatabase p"
proof (cases "isInitialized p \<or> isInitializing p")
  case True
  then show ?thesis by (simp add: initializeDatabase_def guarded)
next
  case False
  have "((snd \<circ> initializeDatabase) ^^ k) (p\<lparr>isInitializing := True\<rparr>) = p\<lparr>isInitializing := True\<rparr>"
    by (rule repeat_guarded) simp
  then show ?thesis
    using False by (simp add: initializeDatabase_def initializeDatabase_with_def)
qed

lemma init_repeat:
  assumes "initializeDatabase p = (r, p')"
  shows "((snd \<circ> initializeDatabase) ^^ Suc n) p = p'"
proof (induction n)
  case 0
  then show ?case using assms by simp
next
  case (Suc n)
  then show ?case using init_again [OF assms] by simp
qed

lemma init_fresh_again:
  assumes "initializeDatabase (fresh cat) = (None, p')"
  shows "initializeDatabase (fresh (schema p')) = (None, p')"
proof -
  obtain e c where rc: "run queries cat = (e, c)" by (cases "run queries cat")
  have rc': "run queries c = (e, c)" using rc by (rule run_queries_again)
  show ?thesis
    using assms rc rc'
    by (cases e) (auto simp: initializeDatabase_def initializeDatabase_with_def fresh_def)
qed

lemma init_empty:
  "initializeDatabase (fresh empty_catalog) =
     (None, \<lparr>isInitializing = False, isInitialized = True,
             schema = \<lparr>tables = [''app_users'' \<mapsto> createUsersTable,
                                 ''otp_verifications'' \<mapsto> createOtpTable,
                                 ''schools'' \<mapsto> createSchoolsTable],
                       sql_functions = [''update_updated_at_column'' \<mapsto> createUpdateFunction],
                       triggers = [''update_app_users_updated_at'' \<mapsto>
                                     (''app_users'', ''update_updated_at_column''),
                                   ''update_schools_updated_at'' \<mapsto>
                                     (''schools'', ''update_updated_at_column'')]\<rparr>\<rparr>)"
  by (simp add: initializeDatabase_def initializeDatabase_with_def fresh_def empty_catalog_def
      queries_def createUsersTable_def createOtpTable_def createSchoolsTable_def has_key_def)

section \<open>The claims\<close>

subsection \<open>Who may change a school\<close>

text \<open>
  C1, as amended. A \<^verbatim>\<open>PUT\<close> or \<^verbatim>\<open>DELETE\<close> on \<^verbatim>\<open>/schools/{id}\<close> whose
  \<^verbatim>\<open>auth-token\<close> cookie is absent or empty, or whose token fails verification, is
  answered 401 before the store is touched: the store is as it was and the handler has
  sent it nothing. When the token resolves to a user id other than the \<^verbatim>\<open>created_by\<close>
  of the row with that id (null included), \<^verbatim>\<open>DELETE\<close> is answered 403, \<^verbatim>\<open>PUT\<close> is
  answered 403 whenever its form passes validation, and in every case \<^verbatim>\<open>PUT\<close> leaves
  the store as it was.
\<close>

theorem mutation_gate:
  "((auth_token request = None \<or>
       (\<exists>t. auth_token request = Some t \<and> (t = [] \<or> verifyToken e t = None))) \<longrightarrow>
      status (resp (PUT e request idp db)) = 401 \<and> final (PUT e request idp db) = db \<and>
      log (PUT e request idp db) = [] \<and>
      status (resp (DELETE e request idp db)) = 401 \<and> final (DELETE e request idp db) = db \<and>
      log (DELETE e request idp db) = [])
   \<and>
   ((\<exists>t. auth_token request = Some t \<and> t \<noteq> [] \<and> verifyToken e t = Some u) \<and>
      parseInt idp = Some n \<and>
      find (\<lambda>s. sint (school_id s) = n) (schools db) = Some s \<and>
      number_of (created_by s) \<noteq> Some u \<longrightarrow>
      DELETE e request idp db =
        reply (failure 403 ''You can only delete schools you created'') db
          [Connect, Query SELECT_owner, Release] \<and>
      final (PUT e request idp db) = db \<and>
      (\<forall>fd v. formData request = Some fd \<and> validate fd = Inr v \<longrightarrow>
         PUT e request idp db =
           reply (failure 403 ''You can only edit schools you created'') db
             [Connect, Query SELECT_owner, Release]))"
  using unauthenticated [of request e "\<lambda>db. db" idp db] not_owner [of request _ e u idp n db s]
  by (auto simp: PUT_def DELETE_def)

theorem mutation_gate_witness:
  "status (resp (PUT env1 req0 ''1'' db1)) = 401 \<and>
   status (resp (DELETE env1 req0 ''1'' db1)) = 401 \<and>
   final (DELETE env1 req0 ''1'' db1) = db1 \<and>
   DELETE env1 req8 ''1'' db1 =
     reply (failure 403 ''You can only delete schools you created'') db1
       [Connect, Query SELECT_owner, Release] \<and>
   PUT env1 req8 ''1'' db1 =
     reply (failure 403 ''You can only edit schools you created'') db1
       [Connect, Query SELECT_owner, Release]"
  using mutation_gate [where request = req0 and e = env1 and idp = "''1''" and db = db1]
    mutation_gate [where request = req8 and e = env1 and idp = "''1''" and db = db1
      and u = 8 and n = 1 and s = school1]
  by (simp add: num_defs ex_defs form_defs number_of_def)

text \<open>
  C1 as stated fails for a \<^verbatim>\<open>PUT\<close>: the form is validated before the ownership
  check, so user 8 sending a form without a name for the school of user 7 is answered
  400 \<^verbatim>\<open>All fields are required\<close>, not 403.
\<close>

theorem mutation_gate_put_invalid_form:
  "verifyToken env1 ''t8'' = Some 8 \<and>
   find (\<lambda>s. sint (school_id s) = 1) (schools db1) = Some school1 \<and>
   number_of (created_by school1) = Some 7 \<and>
   resp (PUT env1 \<lparr>auth_token = Some ''t8'', formData = Some form0\<rparr> ''1'' db1) =
     failure 400 ''All fields are required''"
  by (simp add: PUT_def PUT_with_def reply_def num_defs ex_defs form_defs number_of_def)

subsection \<open>Updating a school\<close>




subsection \<open>Validation comes before the store\<close>

text \<open>
  C3, as amended. When a required form value is missing or empty, or the email does not
  match the pattern, or \<^verbatim>\<open>parseInt\<close> of the contact value is NaN or not positive, an
  authenticated \<^verbatim>\<open>PUT\<close> is answered 400 with the store as it was and nothing sent
  to it, whatever the path id; and so is \<open>createSchool\<close>, as the spec describes it.
\<close>

theorem invalid_input_rejected:
  assumes "field fd ''name'' = [] \<or> field fd ''address'' = [] \<or> field fd ''city'' = [] \<or>
           field fd ''state'' = [] \<or> field fd ''contact'' = [] \<or> field fd ''email_id'' = [] \<or>
           \<not> emailRegex_test (field fd ''email_id'') \<or>
           parseInt (field fd ''contact'') = None \<or>
           (\<exists>k. parseInt (field fd ''contact'') = Some k \<and> k \<le> 0)"
    and "auth_token request = Some t" and "t \<noteq> []" and "verifyToken e t = Some u"
    and "formData request = Some fd"
  shows "status (resp (PUT e request idp db)) = 400 \<and>
         final (PUT e request idp db) = db \<and> log (PUT e request idp db) = [] \<and>
         status (resp (createSchool e fd ownerId db)) = 400 \<and>
         final (createSchool e fd ownerId db) = db \<and> log (createSchool e fd ownerId db) = []"
proof -
  obtain bad where b: "validate fd = Inl bad" "status bad = 400"
    using validate_rejects [OF assms(1)] by blast
  show ?thesis
    using assms(2-5) b
    by (simp add: PUT_def PUT_with_def createSchool_def reply_def failure_def
        split: option.splits)
qed

theorem invalid_input_rejected_witness:
  "parseInt (field (form1(''contact'' \<mapsto> ''-5'')) ''contact'') = Some (- 5) \<and>
   status (resp (PUT env1 (req7\<lparr>formData := Some (form1(''contact'' \<mapsto> ''-5''))\<rparr>) ''1'' db1)) = 400 \<and>
   final (PUT env1 (req7\<lparr>formData := Some (form1(''contact'' \<mapsto> ''-5''))\<rparr>) ''1'' db1) = db1 \<and>
   log (PUT env1 (req7\<lparr>formData := Some (form1(''contact'' \<mapsto> ''-5''))\<rparr>) ''1'' db1) = [] \<and>
   status (resp (createSchool env1 (form1(''contact'' \<mapsto> ''-5'')) 7 db1)) = 400 \<and>
   final (createSchool env1 (form1(''contact'' \<mapsto> ''-5'')) 7 db1) = db1"
proof -
  have p: "parseInt (field (form1(''contact'' \<mapsto> ''-5'')) ''contact'') = Some (- 5)"
    by (simp add: field_def num_defs)
  have a: "auth_token (req7\<lparr>formData := Some (form1(''contact'' \<mapsto> ''-5''))\<rparr>) = Some ''t7''"
    "''t7'' \<noteq> []" "verifyToken env1 ''t7'' = Some 7"
    "formData (req7\<lparr>formData := Some (form1(''contact'' \<mapsto> ''-5''))\<rparr>) =
       Some (form1(''contact'' \<mapsto> ''-5''))"
    by (simp_all add: req7_def env1_def)
  show ?thesis
    using invalid_input_rejected [OF _ a, of "''1''" db1 7] p by auto
qed

text \<open>
  C3 as stated fails for a contact value that is not a positive integer but starts with
  one: \<^verbatim>\<open>parseInt\<close> reads the digits in front, so \<^verbatim>\<open>1.5\<close> is stored as 1 and
  \<^verbatim>\<open>12abc\<close> as 12, and the update succeeds.
\<close>

theorem contact_prefix_accepted:
  "status (resp (PUT env1 (req7\<lparr>formData := Some (form1(''contact'' \<mapsto> ''1.5''))\<rparr>) ''1'' db1)) = 200 \<and>
   map contact (schools (final
     (PUT env1 (req7\<lparr>formData := Some (form1(''contact'' \<mapsto> ''1.5''))\<rparr>) ''1'' db1))) =
     [1, 5550000] \<and>
   status (resp (PUT env1 (req7\<lparr>formData := Some (form1(''contact'' \<mapsto> ''12abc''))\<rparr>) ''1'' db1)) = 200 \<and>
   map contact (schools (final
     (PUT env1 (req7\<lparr>formData := Some (form1(''contact'' \<mapsto> ''12abc''))\<rparr>) ''1'' db1))) =
     [12, 5550000]"
  by (simp add: PUT_def PUT_with_def select_owner_def update_school_def to_int4_def to_int8_def
      set_fields_def reply_def ok_def number_of_def num_defs ex_defs form_defs)

subsection \<open>Reading a school\<close>

text \<open>
  C4, as amended. \<^verbatim>\<open>GET /schools/{id}\<close> never looks at the cookie. For an id that
  parses to a number within the range of the \<^verbatim>\<open>INTEGER\<close> column, it answers 404
  \<^verbatim>\<open>School not found\<close> when no school has that id, and otherwise 200 with the (first) row
  of that id and the e-mail of the user its \<^verbatim>\<open>created_by\<close> refers to (null when there
  is none). The store is left as it was.
\<close>

theorem get_school:
  assumes "parseInt idp = Some n" and "- (2 ^ 31) \<le> n" and "n < 2 ^ 31"
  shows "GET request idp db =
     (case find (\<lambda>s. sint (school_id s) = n) (schools db) of
        None \<Rightarrow>
          reply (failure 404 ''School not found'') db [Connect, Query SELECT_joined, Release]
      | Some s \<Rightarrow>
          reply (ok None (Joined s
                   (case created_by s of None \<Rightarrow> None
                    | Some u \<Rightarrow> map_option email (find (\<lambda>a. user_id a = u) (app_users db)))))
            db [Connect, Query SELECT_joined, Release])"
proof (cases "find (\<lambda>s. sint (school_id s) = n) (schools db)")
  case None
  then show ?thesis
    using assms by (simp add: GET_def select_joined_eq find_None_filter)
next
  case (Some s)
  then obtain ys where f: "filter (\<lambda>s. sint (school_id s) = n) (schools db) = s # ys"
    using find_Some_filter by fastforce
  obtain zs where j: "left_join (app_users db) s =
     (s, case created_by s of None \<Rightarrow> None
         | Some u \<Rightarrow> map_option email (find (\<lambda>a. user_id a = u) (app_users db))) # zs"
    using left_join_head by blast
  show ?thesis
    using assms Some by (simp add: GET_def select_joined_eq f j)
qed

theorem get_school_witness:
  "parseInt ''1'' = Some 1 \<and>
   GET req0 ''1'' db1 =
     reply (ok None (Joined school1 (Some ''a@x.com''))) db1
       [Connect, Query SELECT_joined, Release]"
  using get_school [of "''1''" 1 req0 db1]
  by (simp add: parseInt_def strip_sign_def strip_prefix_def digit_of_def is_ws_def
      db1_def school1_def school2_def user7_def)

text \<open>
  C4 as stated fails for an id beyond the \<^verbatim>\<open>INTEGER\<close> range: no school has the id
  2147483648, the parameter does not fit the column, the query throws and the handler
  answers 500 \<^verbatim>\<open>Failed to fetch school\<close>.
\<close>

theorem get_school_out_of_range:
  "parseInt ''2147483648'' = Some 2147483648 \<and>
   find (\<lambda>s. sint (school_id s) = 2147483648) (schools db1) = None \<and>
   resp (GET req0 ''2147483648'' db1) = failure 500 ''Failed to fetch school''"
  by (simp add: GET_def select_joined_def to_int4_def reply_def
      parseInt_def strip_sign_def strip_prefix_def digit_of_def is_ws_def
      db1_def school1_def school2_def)

subsection \<open>A deleted school is gone\<close>

text \<open>
  C5. When \<^verbatim>\<open>DELETE /schools/{id}\<close> has answered 200, which only the owner obtains, no
  row of that id is left in the store, and a \<^verbatim>\<open>GET\<close> of the same path id on that store,
  by any request, is answered 404 \<^verbatim>\<open>School not found\<close>.
\<close>

theorem deleted_school_is_gone:
  assumes "status (resp (DELETE e request idp db)) = 200"
  shows "GET request' idp (final (DELETE e request idp db)) =
           reply (failure 404 ''School not found'') (final (DELETE e request idp db))
             [Connect, Query SELECT_joined, Release] \<and>
         (\<exists>n. parseInt idp = Some n \<and>
            find (\<lambda>s. sint (school_id s) = n) (schools (final (DELETE e request idp db))) = None)"
proof -
  from assms obtain t u n s where a: "auth_token request = Some t" "t \<noteq> []"
      "verifyToken e t = Some u" "parseInt idp = Some n"
    and f: "find (\<lambda>s. sint (school_id s) = n) (schools db) = Some s"
    and o: "number_of (created_by s) = Some u"
    using DELETE_with_200 [of "\<lambda>db. db" e request idp db] by (auto simp: DELETE_def)
  have r: "- (2 ^ 31) \<le> n" "n < 2 ^ 31"
    using f sint_int4_bounds [of "school_id s"] by (auto simp: find_Some_iff)
  have fin: "schools (final (DELETE e request idp db)) =
               filter (\<lambda>s. sint (school_id s) \<noteq> n) (schools db)"
    using a f o r by (simp add: DELETE_def DELETE_with_auth reply_def)
  have none: "find (\<lambda>s. sint (school_id s) = n) (schools (final (DELETE e request idp db))) = None"
    by (simp add: fin find_None_iff)
  have "GET request' idp (final (DELETE e request idp db)) =
          reply (failure 404 ''School not found'') (final (DELETE e request idp db))
            [Connect, Query SELECT_joined, Release]"
    using a(4) r none by (simp add: GET_def select_joined_eq find_None_filter)
  then show ?thesis
    using none a(4) by simp
qed

theorem deleted_school_is_gone_witness:
  "status (resp (DELETE env1 req7 ''1'' db1)) = 200 \<and>
   schools (final (DELETE env1 req7 ''1'' db1)) = [school2] \<and>
   resp (GET req0 ''1'' (final (DELETE env1 req7 ''1'' db1))) = failure 404 ''School not found''"
proof -
  have s: "status (resp (DELETE env1 req7 ''1'' db1)) = 200"
    by (simp add: DELETE_def DELETE_with_def select_owner_def delete_school_def to_int4_def
        reply_def ok_def number_of_def num_defs ex_defs)
  have f: "schools (final (DELETE env1 req7 ''1'' db1)) = [school2]"
    by (simp add: DELETE_def DELETE_with_def select_owner_def delete_school_def to_int4_def
        reply_def ok_def number_of_def num_defs ex_defs)
  show ?thesis
    using deleted_school_is_gone [OF s, of req0] s f by (simp add: reply_def)
qed

subsection \<open>Removing a user keeps the schools\<close>


subsection \<open>Initialising twice\<close>

text \<open>
  C7. \<^verbatim>\<open>initializeDatabase\<close> is idempotent. Whatever a call returns and leaves behind, a
  second call in the same process returns the same and leaves the same flags and
  catalog, and so does any number of calls in a row. Calls started while the first one
  awaits its connection change nothing: the first call ends as if it had run alone. A
  call that finds \<^verbatim>\<open>isInitialized\<close> or \<^verbatim>\<open>isInitializing\<close> set returns at once without
  error. A new process that runs it against a catalog that an earlier successful run has
  left gets no error and leaves the same catalog.
\<close>

theorem initializeDatabase_idempotent:
  "(initializeDatabase p = (r, p') \<longrightarrow>
      initializeDatabase p' = (r, p') \<and>
      ((snd \<circ> initializeDatabase) ^^ Suc n) p = p' \<and>
      initializeDatabase_with ((snd \<circ> initializeDatabase) ^^ k) p = (r, p'))
   \<and> (isInitialized p \<or> isInitializing p \<longrightarrow> initializeDatabase p = (None, p))
   \<and> (initializeDatabase (fresh cat) = (None, q) \<longrightarrow>
        initializeDatabase (fresh (schema q)) = (None, q))"
  using init_again [of p r p'] init_repeat [of p r p' n] init_concurrent [of k p]
    guarded [of p "\<lambda>p. p"] init_fresh_again [of cat q]
  by (simp add: initializeDatabase_def)

theorem initializeDatabase_idempotent_witness:
  "fst (initializeDatabase (fresh empty_catalog)) = None \<and>
   initializeDatabase (snd (initializeDatabase (fresh empty_catalog))) =
     initializeDatabase (fresh empty_catalog) \<and>
   ((snd \<circ> initializeDatabase) ^^ Suc 2) (fresh empty_catalog) =
     snd (initializeDatabase (fresh empty_catalog)) \<and>
   initializeDatabase_with ((snd \<circ> initializeDatabase) ^^ 2) (fresh empty_catalog) =
     initializeDatabase (fresh empty_catalog) \<and>
   initializeDatabase (fresh (schema (snd (initializeDatabase (fresh empty_catalog))))) =
     initializeDatabase (fresh empty_catalog)"
proof -
  obtain q where q: "initializeDatabase (fresh empty_catalog) = (None, q)"
    using init_empty by blast
  show ?thesis
    using initializeDatabase_idempotent [of "fresh empty_catalog" None q 2 2 empty_catalog q] q
    by simp
qed

subsection \<open>The ownership check and the write are two statements\<close>

text \<open>
  C8, as amended. The ownership check is a \<^verbatim>\<open>SELECT\<close> that precedes the write, and the
  \<^verbatim>\<open>UPDATE\<close> and \<^verbatim>\<open>DELETE\<close> statements name the row by id alone. Whatever other clients
  do to the store between the two, \<^verbatim>\<open>PUT\<close> and \<^verbatim>\<open>DELETE\<close> answer 200 only if the
  caller was the \<^verbatim>\<open>created_by\<close> of the row when the check read it; and when nothing
  happens in between, a handler changes the store only for such a caller.
\<close>

theorem owner_checked_before_write:
  "(status (resp (PUT_with other e request idp db)) = 200 \<or>
    status (resp (DELETE_with other e request idp db)) = 200 \<or>
    final (PUT e request idp db) \<noteq> db \<or> final (DELETE e request idp db) \<noteq> db) \<longrightarrow>
   (\<exists>t u n s. auth_token request = Some t \<and> t \<noteq> [] \<and> verifyToken e t = Some u \<and>
      parseInt idp = Some n \<and>
      find (\<lambda>s. sint (school_id s) = n) (schools db) = Some s \<and>
      number_of (created_by s) = Some u)"
  using PUT_with_200 [of other e request idp db] DELETE_with_200 [of other e request idp db]
    PUT_with_200 [of "\<lambda>db. db" e request idp db] DELETE_with_200 [of "\<lambda>db. db" e request idp db]
    PUT_final [of e request idp db] DELETE_final [of e request idp db]
  by (auto simp: PUT_def DELETE_def)

theorem owner_checked_before_write_witness:
  "status (resp (PUT_with (user_removed 7) env1 req7 ''1'' db1)) = 200 \<and>
   (\<exists>t u n s. auth_token req7 = Some t \<and> t \<noteq> [] \<and> verifyToken env1 t = Some u \<and>
      parseInt ''1'' = Some n \<and>
      find (\<lambda>s. sint (school_id s) = n) (schools db1) = Some s \<and>
      number_of (created_by s) = Some u)"
proof -
  have s: "status (resp (PUT_with (user_removed 7) env1 req7 ''1'' db1)) = 200"
    by (simp add: PUT_with_def select_owner_def update_school_def to_int4_def to_int8_def
        reply_def ok_def number_of_def user_removed_def delete_user_def referencing_def
        createOtpTable_def createSchoolsTable_def num_defs ex_defs form_defs)
  show ?thesis
    using owner_checked_before_write [of "user_removed 7" env1 req7 "''1''" db1] s by blast
qed

text \<open>
  C8 as stated fails: nothing ties the write to the ownership read. User 7 owns school 1
  when the check reads the row; the user row is then removed, which clears
  \<^verbatim>\<open>created_by\<close>; the \<^verbatim>\<open>UPDATE\<close> (and likewise the \<^verbatim>\<open>DELETE\<close>) still goes
  through on the school that now has no owner.
\<close>

theorem write_after_owner_removed:
  "map created_by (schools db1) = [Some 7, None] \<and>
   map created_by (schools (user_removed 7 db1)) = [None, None] \<and>
   status (resp (PUT_with (user_removed 7) env1 req7 ''1'' db1)) = 200 \<and>
   map name (schools (final (PUT_with (user_removed 7) env1 req7 ''1'' db1))) = [''Z'', ''Y''] \<and>
   status (resp (DELETE_with (user_removed 7) env1 req7 ''1'' db1)) = 200 \<and>
   map name (schools (final (DELETE_with (user_removed 7) env1 req7 ''1'' db1))) = [''Y'']"
  by (simp add: PUT_with_def DELETE_with_def select_owner_def update_school_def delete_school_def
      to_int4_def to_int8_def set_fields_def
      reply_def ok_def number_of_def user_removed_def delete_user_def referencing_def
      createOtpTable_def createSchoolsTable_def num_defs ex_defs form_defs)

subsection \<open>Schools without an owner\<close>

text \<open>
  C9, as amended. A school whose \<^verbatim>\<open>created_by\<close> is null is never changed by \<^verbatim>\<open>PUT\<close>
  or \<^verbatim>\<open>DELETE\<close>: whatever the request, the store is as it was. For every caller
  identity an authenticated \<^verbatim>\<open>DELETE\<close> is answered 403, and so is an authenticated
  \<^verbatim>\<open>PUT\<close> whose form passes validation.
\<close>

theorem anonymous_school_is_frozen:
  "parseInt idp = Some n \<and> find (\<lambda>s. sint (school_id s) = n) (schools db) = Some s \<and>
   created_by s = None \<longrightarrow>
     final (PUT e request idp db) = db \<and> final (DELETE e request idp db) = db \<and>
     ((\<exists>t u. auth_token request = Some t \<and> t \<noteq> [] \<and> verifyToken e t = Some u) \<longrightarrow>
        DELETE e request idp db =
          reply (failure 403 ''You can only delete schools you created'') db
            [Connect, Query SELECT_owner, Release] \<and>
        (\<forall>fd v. formData request = Some fd \<and> validate fd = Inr v \<longrightarrow>
           PUT e request idp db =
             reply (failure 403 ''You can only edit schools you created'') db
               [Connect, Query SELECT_owner, Release]))"
proof (intro impI, elim conjE)
  assume p: "parseInt idp = Some n"
    and f: "find (\<lambda>s. sint (school_id s) = n) (schools db) = Some s"
    and c: "created_by s = None"
  have no: "number_of (created_by s) \<noteq> Some u" for u
    using c by (simp add: number_of_def)
  have fp: "final (PUT e request idp db) = db"
  proof (rule ccontr)
    assume "final (PUT e request idp db) \<noteq> db"
    then have "status (resp (PUT_with (\<lambda>db. db) e request idp db)) = 200"
      using PUT_final [of e request idp db] by (simp add: PUT_def)
    then show False
      using PUT_with_200 [of "\<lambda>db. db" e request idp db] p f no by auto
  qed
  have fd: "final (DELETE e request idp db) = db"
  proof (rule ccontr)
    assume "final (DELETE e request idp db) \<noteq> db"
    then have "status (resp (DELETE_with (\<lambda>db. db) e request idp db)) = 200"
      using DELETE_final [of e request idp db] by (simp add: DELETE_def)
    then show False
      using DELETE_with_200 [of "\<lambda>db. db" e request idp db] p f no by auto
  qed
  show "final (PUT e request idp db) = db \<and> final (DELETE e request idp db) = db \<and>
     ((\<exists>t u. auth_token request = Some t \<and> t \<noteq> [] \<and> verifyToken e t = Some u) \<longrightarrow>
        DELETE e request idp db =
          reply (failure 403 ''You can only delete schools you created'') db
            [Connect, Query SELECT_owner, Release] \<and>
        (\<forall>fd v. formData request = Some fd \<and> validate fd = Inr v \<longrightarrow>
           PUT e request idp db =
             reply (failure 403 ''You can only edit schools you created'') db
               [Connect, Query SELECT_owner, Release]))"
    using fp fd not_owner(1,3) [OF _ _ _ p f no] by blast
qed

theorem anonymous_school_is_frozen_witness:
  "final (PUT env1 req7 ''2'' db1) = db1 \<and> final (DELETE env1 req7 ''2'' db1) = db1 \<and>
   DELETE env1 req7 ''2'' db1 =
     reply (failure 403 ''You can only delete schools you created'') db1
       [Connect, Query SELECT_owner, Release] \<and>
   PUT env1 req7 ''2'' db1 =
     reply (failure 403 ''You can only edit schools you created'') db1
       [Connect, Query SELECT_owner, Release]"
proof -
  have h: "parseInt ''2'' = Some 2 \<and>
           find (\<lambda>s. sint (school_id s) = 2) (schools db1) = Some school2 \<and>
           created_by school2 = None"
    by (simp add: num_defs db1_def school1_def school2_def)
  have a: "\<exists>t u. auth_token req7 = Some t \<and> t \<noteq> [] \<and> verifyToken env1 t = Some u"
    by (simp add: req7_def env1_def)
  have v: "formData req7 = Some form1 \<and>
           validate form1 = Inr \<lparr>v_name = ''Z'', v_address = ''3 Rd'', v_city = ''E'',
             v_state = ''U'', contactNumber = 5559999, v_email_id = ''z@z.net''\<rparr>"
    by (simp add: req7_def form1_def form_defs num_defs)
  show ?thesis
    using anonymous_school_is_frozen [where request = req7 and e = env1 and idp = "''2''"
        and db = db1 and n = 2 and s = school2] h a v
    by blast
qed

text \<open>
  C9 as stated fails for a \<^verbatim>\<open>PUT\<close> whose form does not pass validation: it is
  answered 400 before the ownership check, not 403.
\<close>

theorem anonymous_school_put_invalid_form:
  "verifyToken env1 ''t7'' = Some 7 \<and>
   find (\<lambda>s. sint (school_id s) = 2) (schools db1) = Some school2 \<and>
   created_by school2 = None \<and>
   resp (PUT env1 \<lparr>auth_token = Some ''t7'', formData = Some form0\<rparr> ''2'' db1) =
     failure 400 ''All fields are required''"
  by (simp add: PUT_def PUT_with_def reply_def num_defs ex_defs form_defs)

subsection \<open>The path id\<close>

text \<open>
  C10, as amended. When \<^verbatim>\<open>parseInt\<close> of the path id is NaN, \<^verbatim>\<open>GET\<close> answers 400
  \<^verbatim>\<open>Invalid school ID\<close> with nothing sent to the store, and so do \<^verbatim>\<open>PUT\<close> and
  \<^verbatim>\<open>DELETE\<close> once the token has been verified. The handlers use the path id through
  \<^verbatim>\<open>parseInt\<close> only: two ids with the same \<^verbatim>\<open>parseInt\<close> get the same answer. Decimal
  digits followed by anything that does not start with a digit parse as the digits alone
  (but \<^verbatim>\<open>0x\<close> starts a hexadecimal number).
\<close>

theorem path_id_parsed:
  "(parseInt idp = None \<longrightarrow>
      GET request idp db = reply (failure 400 ''Invalid school ID'') db [] \<and>
      ((\<exists>t u. auth_token request = Some t \<and> t \<noteq> [] \<and> verifyToken e t = Some u) \<longrightarrow>
         PUT e request idp db = reply (failure 400 ''Invalid school ID'') db [] \<and>
         DELETE e request idp db = reply (failure 400 ''Invalid school ID'') db []))
   \<and>
   (parseInt idp = parseInt idp' \<longrightarrow>
      GET request idp db = GET request idp' db \<and> PUT e request idp db = PUT e request idp' db \<and>
      DELETE e request idp db = DELETE e request idp' db)
   \<and>
   (ds \<noteq> [] \<and> (\<forall>c\<in>set ds. digit_of 10 c \<noteq> None) \<and> (g = [] \<or> digit_of 10 (hd g) = None) \<and>
    \<not> (ds = ''0'' \<and> g \<noteq> [] \<and> (hd g = CHR ''x'' \<or> hd g = CHR ''X'')) \<longrightarrow>
      parseInt (ds @ g) = parseInt ds)"
proof (intro conjI impI)
  assume n: "parseInt idp = None"
  show "GET request idp db = reply (failure 400 ''Invalid school ID'') db []"
    using n by (rule invalid_id(1))
  assume "\<exists>t u. auth_token request = Some t \<and> t \<noteq> [] \<and> verifyToken e t = Some u"
  then obtain t u where a: "auth_token request = Some t" "t \<noteq> []" "verifyToken e t = Some u"
    by blast
  show "PUT e request idp db = reply (failure 400 ''Invalid school ID'') db []"
    unfolding PUT_def using n a by (rule invalid_id(2))
  show "DELETE e request idp db = reply (failure 400 ''Invalid school ID'') db []"
    unfolding DELETE_def using n a by (rule invalid_id(3))
next
  assume p: "parseInt idp = parseInt idp'"
  show "GET request idp db = GET request idp' db"
    using p by (rule same_parse(1))
  show "PUT e request idp db = PUT e request idp' db"
    unfolding PUT_def using p by (rule same_parse(2))
  show "DELETE e request idp db = DELETE e request idp' db"
    unfolding DELETE_def using p by (rule same_parse(3))
next
  assume "ds \<noteq> [] \<and> (\<forall>c\<in>set ds. digit_of 10 c \<noteq> None) \<and>
    (g = [] \<or> digit_of 10 (hd g) = None) \<and>
    \<not> (ds = ''0'' \<and> g \<noteq> [] \<and> (hd g = CHR ''x'' \<or> hd g = CHR ''X''))"
  then show "parseInt (ds @ g) = parseInt ds"
    using parseInt_numeric_prefix [of ds g] by blast
qed

theorem path_id_parsed_witness:
  "parseInt ''abc'' = None \<and>
   GET req0 ''abc'' db1 = reply (failure 400 ''Invalid school ID'') db1 [] \<and>
   PUT env1 req7 ''abc'' db1 = reply (failure 400 ''Invalid school ID'') db1 [] \<and>
   DELETE env1 req7 ''abc'' db1 = reply (failure 400 ''Invalid school ID'') db1 [] \<and>
   parseInt ''1abc'' = parseInt ''1'' \<and>
   GET req0 ''1abc'' db1 = GET req0 ''1'' db1 \<and>
   PUT env1 req7 ''1abc'' db1 = PUT env1 req7 ''1'' db1 \<and>
   DELETE env1 req7 ''1abc'' db1 = DELETE env1 req7 ''1'' db1"
proof -
  have n: "parseInt ''abc'' = None"
    by (simp add: num_defs)
  have a: "\<exists>t u. auth_token req7 = Some t \<and> t \<noteq> [] \<and> verifyToken env1 t = Some u"
    by (simp add: req7_def env1_def)
  have d: "''1'' \<noteq> [] \<and> (\<forall>c\<in>set ''1''. digit_of 10 c \<noteq> None) \<and>
           (''abc'' = [] \<or> digit_of 10 (hd ''abc'') = None) \<and>
           \<not> (''1'' = ''0'' \<and> ''abc'' \<noteq> [] \<and> (hd ''abc'' = CHR ''x'' \<or> hd ''abc'' = CHR ''X''))"
    by (simp add: digit_of_def)
  note T1 = path_id_parsed [where idp = "''abc''" and idp' = "''abc''" and request = req0
      and e = env1 and db = db1 and ds = "''1''" and g = "''abc''"]
  note T2 = path_id_parsed [where idp = "''abc''" and idp' = "''abc''" and request = req7
      and e = env1 and db = db1 and ds = "''1''" and g = "''abc''"]
  have "parseInt (''1'' @ ''abc'') = parseInt ''1''"
    using T1 d by blast
  then have p: "parseInt ''1abc'' = parseInt ''1''"
    by simp
  note T3 = path_id_parsed [where idp = "''1abc''" and idp' = "''1''" and request = req0
      and e = env1 and db = db1 and ds = "''1''" and g = "''abc''"]
  note T4 = path_id_parsed [where idp = "''1abc''" and idp' = "''1''" and request = req7
      and e = env1 and db = db1 and ds = "''1''" and g = "''abc''"]
  have g: "GET req0 ''abc'' db1 = reply (failure 400 ''Invalid school ID'') db1 []"
    using T1 n by blast
  have m: "PUT env1 req7 ''abc'' db1 = reply (failure 400 ''Invalid school ID'') db1 [] \<and>
           DELETE env1 req7 ''abc'' db1 = reply (failure 400 ''Invalid school ID'') db1 []"
    using T2 n a by blast
  have s: "GET req0 ''1abc'' db1 = GET req0 ''1'' db1 \<and>
           PUT env1 req7 ''1abc'' db1 = PUT env1 req7 ''1'' db1 \<and>
           DELETE env1 req7 ''1abc'' db1 = DELETE env1 req7 ''1'' db1"
    using T3 T4 p by blast
  show ?thesis
    using n g m p s by blast
qed

text \<open>
  C10 as stated fails for \<^verbatim>\<open>PUT\<close> and \<^verbatim>\<open>DELETE\<close> without a cookie: the token is
  checked before the id, and the answer is 401.
\<close>

theorem path_id_unauthenticated:
  "parseInt ''abc'' = None \<and>
   resp (PUT env1 req0 ''abc'' db1) = failure 401 ''Authentication required'' \<and>
   resp (DELETE env1 req0 ''abc'' db1) = failure 401 ''Authentication required''"
  by (simp add: PUT_def PUT_with_def DELETE_def DELETE_with_def reply_def num_defs req0_def)

end
